theory Spec2Isabelle
  imports Complex_Main "HOL-Library.Sublist"
begin

section \<open>Token discovery: \<^verbatim>\<open>src/wom/new_pairs_tracker.py\<close>\<close>

subsection \<open>Python strings\<close>

text \<open>
  A Python string is a sequence of Unicode code points: the list of their numbers, so
  that \<open>length\<close> is \<^verbatim>\<open>len\<close>. \<open>pystr\<close> gives the string of an ASCII literal.

  \<^verbatim>\<open>str.split()\<close> without arguments cuts at runs of whitespace and returns no empty
  piece; \<^verbatim>\<open>str.strip()\<close> removes whitespace at both ends. The whitespace characters are
  those of \<^verbatim>\<open>str.isspace\<close>: U+0009 to U+000D, U+001C to U+0020, U+0085, U+00A0, U+1680,
  U+2000 to U+200A, U+2028, U+2029, U+202F, U+205F and U+3000.
\<close>

type_synonym str = "nat list"

definition pystr :: "string \<Rightarrow> str" where
  "pystr cs = map of_char cs"

text \<open>
  The exceptions that the code can raise by itself, and \<open>Raised\<close> for any exception of
  a service it calls, with its message.
\<close>

datatype py_error = IndexError | AttributeError | TypeError | Raised string

definition is_space :: "nat \<Rightarrow> bool" where
  "is_space c =
     ((0x09 \<le> c \<and> c \<le> 0x0D) \<or> (0x1C \<le> c \<and> c \<le> 0x20) \<or> c = 0x85 \<or> c = 0xA0 \<or>
      c = 0x1680 \<or> (0x2000 \<le> c \<and> c \<le> 0x200A) \<or> c = 0x2028 \<or> c = 0x2029 \<or>
      c = 0x202F \<or> c = 0x205F \<or> c = 0x3000)"

text \<open>The first argument is the piece read so far.\<close>

fun split_loop :: "str \<Rightarrow> str \<Rightarrow> str list" where
  "split_loop cur [] = (if cur = [] then [] else [cur])"
| "split_loop cur (c # cs) =
     (if is_space c
      then (if cur = [] then split_loop [] cs else cur # split_loop [] cs)
      else split_loop (cur @ [c]) cs)"

definition py_split :: "str \<Rightarrow> str list" where
  "py_split s = split_loop [] s"

definition strip :: "str \<Rightarrow> str" where
  "strip s = rev (dropWhile is_space (rev (dropWhile is_space s)))"

text \<open>\<^verbatim>\<open>parts[i]\<close> for an index that is not negative: out of range raises.\<close>

definition index :: "'a list \<Rightarrow> nat \<Rightarrow> py_error + 'a" where
  "index xs i = (if i < length xs then Inr (xs ! i) else Inl IndexError)"

subsection \<open>The symbol normalizer\<close>

text \<open>
  \<^verbatim>\<open>extract_and_format_symbol\<close>, lines 20-31. The body of the \<^verbatim>\<open>try\<close> is
  \<open>format_symbol\<close>; the \<^verbatim>\<open>except (IndexError, AttributeError)\<close> clause turns either
  error into the sentinel. The label is a string here, so only the IndexError of the two
  can arise.
\<close>

definition pool_markers :: "str list" where
  "pool_markers = [pystr ''DLMM'', pystr ''CLMM'', pystr ''CPMM'']"

definition format_symbol :: "str \<Rightarrow> py_error + str" where
  "format_symbol token_symbol_raw =
     (let parts = py_split token_symbol_raw in
      case (if length parts > 1 \<and> parts ! 1 \<in> set pool_markers
            then index parts 2
            else index parts 1) of
        Inl e \<Rightarrow> Inl e
      | Inr symbol \<Rightarrow> Inr (pystr ''$'' @ strip symbol))"

definition extract_and_format_symbol :: "str \<Rightarrow> str" where
  "extract_and_format_symbol token_symbol_raw =
     (case format_symbol token_symbol_raw of
        Inl e \<Rightarrow> pystr ''$Unknown''
      | Inr s \<Rightarrow> s)"

subsection \<open>Feed items and candidate tokens\<close>

text \<open>
  One item of the discovery feed is a JSON object. A field is \<open>None\<close> when the key is
  missing, so that each \<^verbatim>\<open>item.get(key, default)\<close> of lines 83-92 is a \<open>case\<close> with the
  default of the source. For \<^verbatim>\<open>age\<close> the default is \<^verbatim>\<open>None\<close> itself: \<open>None\<close> stands for a
  missing key and for a JSON null alike. Numbers of the feed are real numbers, counts
  are integers; the comparisons of the filter are exact on them.
\<close>

record item =
  item_tokenName :: "str option"
  item_tokenSymbol :: "str option"
  item_age :: "real option"
  item_volumeUsd :: "real option"
  item_makerCount :: "int option"
  item_liquidityUsd :: "real option"
  item_marketCapUsd :: "real option"
  item_priceChange1h :: "real option"
  item_address :: "str option"

text \<open>The dictionary appended to \<^verbatim>\<open>filtered_tokens\<close>, lines 98-109.\<close>

record token =
  token_name :: str
  token_symbol :: str
  address :: str
  age_hours :: "real option"
  volume_usd :: real
  maker_count :: int
  liquidity_usd :: real
  market_cap_usd :: real
  priceChange1h :: real

definition get_default :: "'a option \<Rightarrow> 'a \<Rightarrow> 'a" where
  "get_default v d = (case v of None \<Rightarrow> d | Some x \<Rightarrow> x)"

definition MIN_MAKERS :: int where
  "MIN_MAKERS = 7000"

definition MAX_AGE :: real where
  "MAX_AGE = 24"

text \<open>
  The condition of lines 94-95: \<^verbatim>\<open>age is not None and age <= MAX_AGE and
  maker_count >= MIN_MAKERS\<close>, with \<^verbatim>\<open>maker_count = item.get("makerCount", 0)\<close>.
\<close>

definition passes_filter :: "item \<Rightarrow> bool" where
  "passes_filter it =
     (let age = item_age it;
          maker_count = get_default (item_makerCount it) 0
      in (case age of None \<Rightarrow> False | Some a \<Rightarrow> a \<le> MAX_AGE \<and> maker_count \<ge> MIN_MAKERS))"

text \<open>The dictionary built from one item (lines 83-92 and 98-109).\<close>

definition candidate :: "item \<Rightarrow> token" where
  "candidate it =
     \<lparr> token_name = get_default (item_tokenName it) (pystr ''Unknown''),
       token_symbol =
         extract_and_format_symbol (get_default (item_tokenSymbol it) (pystr ''Unknown'')),
       address = get_default (item_address it) (pystr ''N/A''),
       age_hours = item_age it,
       volume_usd = get_default (item_volumeUsd it) 0,
       maker_count = get_default (item_makerCount it) 0,
       liquidity_usd = get_default (item_liquidityUsd it) 0,
       market_cap_usd = get_default (item_marketCapUsd it) 0,
       priceChange1h = get_default (item_priceChange1h it) 0 \<rparr>"

text \<open>
  The loop of lines 82-109 over the fetched items, with its two accumulators
  \<^verbatim>\<open>filtered_tokens\<close> and \<^verbatim>\<open>unique_symbols\<close>.
\<close>

fun filter_loop :: "item list \<Rightarrow> token list \<Rightarrow> str set \<Rightarrow> token list" where
  "filter_loop [] filtered_tokens unique_symbols = filtered_tokens"
| "filter_loop (it # items) filtered_tokens unique_symbols =
     (if passes_filter it
      then (if token_symbol (candidate it) \<notin> unique_symbols
            then filter_loop items (filtered_tokens @ [candidate it])
                   (insert (token_symbol (candidate it)) unique_symbols)
            else filter_loop items filtered_tokens unique_symbols)
      else filter_loop items filtered_tokens unique_symbols)"

text \<open>
  \<^verbatim>\<open>get_filtered_pairs\<close> once the dataset items have been fetched (lines 49-50 and
  81-111); the exchange with the scraping service before that is not part of it.
\<close>

definition get_filtered_pairs :: "item list \<Rightarrow> token list" where
  "get_filtered_pairs items = filter_loop items [] {}"

text \<open>
  The deduplication contract in the words of the specification: going through the
  admitted candidates in order, keep one whose symbol has not been seen, drop the others.
\<close>

fun first_seen :: "str set \<Rightarrow> token list \<Rightarrow> token list" where
  "first_seen seen [] = []"
| "first_seen seen (t # ts) =
     (if token_symbol t \<in> seen then first_seen seen ts
      else t # first_seen (insert (token_symbol t) seen) ts)"

definition admitted :: "item list \<Rightarrow> token list" where
  "admitted items = map candidate (filter passes_filter items)"

section \<open>The token store: \<^verbatim>\<open>store_tokens\<close> and \<^verbatim>\<open>delete_old_tokens\<close>\<close>

text \<open>
  The table \<^verbatim>\<open>tokens\<close> of \<^verbatim>\<open>init_db\<close> (\<^verbatim>\<open>src/wom/main.py\<close>, lines 49-65) has the primary
  key \<^verbatim>\<open>token_symbol\<close>: it is a map from the symbol to the row. A row has the
  columns of a token and four more. \<^verbatim>\<open>wom_score\<close> and \<^verbatim>\<open>tweet_count\<close> have no default
  (\<open>None\<close> is SQL NULL); \<^verbatim>\<open>created_at\<close> has the default \<^verbatim>\<open>CURRENT_TIMESTAMP\<close>.

  A time is a number of microseconds since the epoch, in UTC. \<^verbatim>\<open>CURRENT_TIMESTAMP\<close> is
  the text \<^verbatim>\<open>YYYY-MM-DD HH:MM:SS\<close> of the current time: the time cut down to the whole
  second. SQLite compares that text with the text of the Python \<^verbatim>\<open>datetime\<close>, which
  starts with the same nineteen characters; both have fields of fixed width and a text
  sorts before its extensions, so the comparison of the texts is the comparison of the
  times.
\<close>

type_synonym timestamp = int

record row = token +
  dex_url :: str
  wom_score :: "real option"
  tweet_count :: "int option"
  created_at :: timestamp

type_synonym tokens_table = "str \<rightharpoonup> row"

definition CURRENT_TIMESTAMP :: "timestamp \<Rightarrow> timestamp" where
  "CURRENT_TIMESTAMP now = now - now mod 1000000"

text \<open>
  One \<^verbatim>\<open>INSERT OR REPLACE INTO tokens (...) VALUES (...)\<close> of lines 122-146, run at the
  time \<open>now\<close>. A row with the same primary key is deleted first; the new row has the ten
  values of the statement, and the defaults of the three columns the statement does not
  name.
\<close>

definition insert_or_replace :: "timestamp \<Rightarrow> token \<Rightarrow> tokens_table \<Rightarrow> tokens_table" where
  "insert_or_replace now t db =
     db(token_symbol t \<mapsto>
        \<lparr> token_name = token_name t,
          token_symbol = token_symbol t,
          address = address t,
          age_hours = age_hours t,
          volume_usd = volume_usd t,
          maker_count = maker_count t,
          liquidity_usd = liquidity_usd t,
          market_cap_usd = market_cap_usd t,
          priceChange1h = priceChange1h t,
          dex_url = pystr ''https://dexscreener.com/solana/'' @ address t,
          wom_score = None,
          tweet_count = None,
          created_at = CURRENT_TIMESTAMP now \<rparr>)"

text \<open>
  \<^verbatim>\<open>store_tokens\<close>, lines 114-149. \<open>clock i\<close> is the time at which the statement for the
  token at position \<open>i\<close> of the batch runs; the loop counts the position in \<open>n\<close>.
\<close>

fun store_loop :: "(nat \<Rightarrow> timestamp) \<Rightarrow> nat \<Rightarrow> token list \<Rightarrow> tokens_table \<Rightarrow> tokens_table" where
  "store_loop clock n [] db = db"
| "store_loop clock n (t # tokens) db =
     store_loop clock (Suc n) tokens (insert_or_replace (clock n) t db)"

definition store_tokens :: "(nat \<Rightarrow> timestamp) \<Rightarrow> token list \<Rightarrow> tokens_table \<Rightarrow> tokens_table" where
  "store_tokens clock tokens db = store_loop clock 0 tokens db"

text \<open>
  \<^verbatim>\<open>delete_old_tokens\<close> of \<^verbatim>\<open>src/wom/main.py\<close>, lines 70-80, called at the time \<open>now\<close>:
  \<^verbatim>\<open>DELETE FROM tokens WHERE created_at <= ?\<close> with the cutoff
  \<^verbatim>\<open>datetime.now(timezone.utc) - timedelta(hours=24)\<close>.
\<close>

definition hours :: "int \<Rightarrow> timestamp" where
  "hours n = n * 3600 * 1000000"

definition delete_old_tokens :: "timestamp \<Rightarrow> tokens_table \<Rightarrow> tokens_table" where
  "delete_old_tokens now db =
     (let cutoff_time = now - hours 24
      in (\<lambda>k. case db k of
                 None \<Rightarrow> None
               | Some r \<Rightarrow> if created_at r \<le> cutoff_time then None else Some r))"

text \<open>
  \<^verbatim>\<open>fetch_tokens\<close>, lines 194-203. \<open>fetched\<close> is how the exchange with the scraping
  service ended: an exception, or the items of the dataset.
\<close>

type_synonym exn = py_error


section \<open>Sentiment: \<^verbatim>\<open>src/crypto_lens/twitter_analysis.py\<close>\<close>

subsection \<open>Numbers\<close>

text \<open>
  A floating-point number is the real number it stands for, or \<open>None\<close> when it is not a
  finite number (the result of \<^verbatim>\<open>0.0 / 0.0\<close> on the classifier's numbers, and whatever is
  computed from it). \<^verbatim>\<open>round(x, 2)\<close> rounds to the nearest multiple of \<open>1/100\<close>, a tie
  to the even one.
\<close>

type_synonym score = "real option"

definition round_half_even :: "real \<Rightarrow> int" where
  "round_half_even x =
     (let f = \<lfloor>x\<rfloor>; d = x - of_int f
      in if d < 1 / 2 then f
         else if d > 1 / 2 then f + 1
         else if even f then f else f + 1)"

definition round2 :: "real \<Rightarrow> real" where
  "round2 x = of_int (round_half_even (x * 100)) / 100"

subsection \<open>The sentiment scorer\<close>

text \<open>
  \<^verbatim>\<open>calculate_bullishness\<close>, lines 25-35. \<open>classify\<close> is the tokenizer, the model and
  the softmax of lines 27-29: for a text it raises, or returns the three probabilities
  \<^verbatim>\<open>probs[0]\<close>, \<^verbatim>\<open>probs[1]\<close>, \<^verbatim>\<open>probs[2]\<close> (bullish, neutral, bearish).
\<close>

type_synonym classifier = "str \<Rightarrow> exn + real \<times> real \<times> real"

definition calculate_bullishness :: "classifier \<Rightarrow> str \<Rightarrow> exn + score" where
  "calculate_bullishness classify tweet_text =
     (case classify tweet_text of
        Inl e \<Rightarrow> Inl e
      | Inr (p0, p1, p2) \<Rightarrow>
        (let bullish_prob = round2 (p0 * 100);
             bearish_prob = round2 (p2 * 100)
         in if bullish_prob + bearish_prob = 0 then Inr None
            else Inr (Some (round2 (bullish_prob / (bullish_prob + bearish_prob))))))"

subsection \<open>Scoring the posts of one cashtag\<close>

text \<open>
  One item of the post feed is a JSON object, of which lines 57 and 65 read two keys. A
  key is absent, or has a value of the type that the code expects (a string for
  \<^verbatim>\<open>text\<close>, a number for \<^verbatim>\<open>userFollowersCount\<close>), or has another JSON value, null
  included: then \<^verbatim>\<open>.strip()\<close> raises AttributeError and \<^verbatim>\<open>< 150\<close> raises TypeError.
\<close>

datatype 'a field = Absent | Present 'a | Ill_typed

record post =
  post_text :: "str field"
  post_userFollowersCount :: "real field"

text \<open>
  The helpers \<^verbatim>\<open>preprocess_tweet\<close> and \<^verbatim>\<open>is_relevant_tweet\<close> come from a module
  \<^verbatim>\<open>utils\<close> and are parameters, as are the classifier and the post feed: each returns
  or raises. \<open>run_actor\<close> is the call of the scraping actor for a search term (line 53)
  together with the iteration over the dataset of the run (line 56): the call raises, or
  there is a dataset, whose iteration yields an item or raises at each step.
\<close>

record services =
  preprocess_tweet :: "str \<Rightarrow> exn + str"
  is_relevant_tweet :: "str \<Rightarrow> exn + bool"
  classify :: classifier
  run_actor :: "str \<Rightarrow> exn + (exn + post) list"

text \<open>
  The loop of lines 56-71 with its accumulator \<^verbatim>\<open>bullishness_scores\<close>. The first
  exception ends it.
\<close>

fun scores_loop :: "services \<Rightarrow> (exn + post) list \<Rightarrow> score list \<Rightarrow> exn + score list" where
  "scores_loop sv [] bullishness_scores = Inr bullishness_scores"
| "scores_loop sv (Inl e # items) bullishness_scores = Inl e"
| "scores_loop sv (Inr item # items) bullishness_scores =
     (case (case post_text item of
              Absent \<Rightarrow> Inr (strip [])
            | Present text \<Rightarrow> Inr (strip text)
            | Ill_typed \<Rightarrow> Inl AttributeError) of
        Inl e \<Rightarrow> Inl e
      | Inr raw_tweet \<Rightarrow>
     (case preprocess_tweet sv raw_tweet of
        Inl e \<Rightarrow> Inl e
      | Inr tweet_text \<Rightarrow>
     (case is_relevant_tweet sv tweet_text of
        Inl e \<Rightarrow> Inl e
      | Inr relevant \<Rightarrow>
          if \<not> relevant then scores_loop sv items bullishness_scores
          else
     (case (case post_userFollowersCount item of
              Absent \<Rightarrow> Inr (0 < (150::real))
            | Present user_followers_count \<Rightarrow> Inr (user_followers_count < 150)
            | Ill_typed \<Rightarrow> Inl TypeError) of
        Inl e \<Rightarrow> Inl e
      | Inr too_few \<Rightarrow>
          if too_few then scores_loop sv items bullishness_scores
          else
     (case calculate_bullishness (classify sv) tweet_text of
        Inl e \<Rightarrow> Inl e
      | Inr score \<Rightarrow> scores_loop sv items (bullishness_scores @ [score]))))))"

subsection \<open>The score aggregator\<close>

text \<open>
  The value of the column \<^verbatim>\<open>Bullishness\<close>: a number, \<^verbatim>\<open>None\<close>, or the text
  \<^verbatim>\<open>"Error"\<close>.
\<close>

datatype bullishness = Bullishness score | No_Signal | Error_Text

text \<open>\<^verbatim>\<open>round(sum(bullishness_scores) / len(bullishness_scores), 2)\<close>, line 74.\<close>

definition rounded_mean :: "score list \<Rightarrow> score" where
  "rounded_mean bullishness_scores =
     (if None \<in> set bullishness_scores then None
      else Some (round2 (sum_list (map the bullishness_scores)
                         / of_nat (length bullishness_scores))))"

text \<open>Lines 73-77.\<close>

definition aggregate :: "score list \<Rightarrow> bullishness" where
  "aggregate bullishness_scores =
     (if bullishness_scores \<noteq> [] then Bullishness (rounded_mean bullishness_scores)
      else No_Signal)"

subsection \<open>The search term\<close>

text \<open>
  Line 43 of \<^verbatim>\<open>twitter_analysis.py\<close> and line 35 of \<^verbatim>\<open>twitter_sentiment.py\<close>;
  \<^verbatim>\<open>cashtag[1:]\<close> is \<open>drop 1\<close>.
\<close>

definition search_term_analysis :: "str \<Rightarrow> str" where
  "search_term_analysis cashtag = (if length cashtag > 6 then drop 1 cashtag else cashtag)"

definition search_term_sentiment :: "str \<Rightarrow> str" where
  "search_term_sentiment cashtag = (if length cashtag > 7 then drop 1 cashtag else cashtag)"

subsection \<open>\<^verbatim>\<open>analyze_cashtags\<close>\<close>

text \<open>
  The body of the \<^verbatim>\<open>try\<close> of lines 52-77 for one cashtag: the value of the column
  \<^verbatim>\<open>Bullishness\<close> of the row that it appends, or the exception that leaves it. An
  exception is one of the class \<^verbatim>\<open>Exception\<close>, which \<^verbatim>\<open>except Exception\<close> catches.
\<close>

definition try_cashtag :: "services \<Rightarrow> str \<Rightarrow> exn + bullishness" where
  "try_cashtag sv cashtag =
     (let search_term = search_term_analysis cashtag
      in case run_actor sv search_term of
           Inl e \<Rightarrow> Inl e
         | Inr items \<Rightarrow>
             (case scores_loop sv items [] of
                Inl e \<Rightarrow> Inl e
              | Inr bullishness_scores \<Rightarrow> Inr (aggregate bullishness_scores)))"

text \<open>
  The body of the loop of lines 42-80 for one cashtag: the row appended to \<^verbatim>\<open>data\<close>,
  the list of which line 82 makes the data frame. The \<^verbatim>\<open>except Exception\<close> of lines
  79-80 gives the row with \<^verbatim>\<open>"Error"\<close> for any exception of the \<^verbatim>\<open>try\<close>.
\<close>

definition analyze_cashtag :: "services \<Rightarrow> str \<Rightarrow> str \<times> bullishness" where
  "analyze_cashtag sv cashtag =
     (case try_cashtag sv cashtag of
        Inl e \<Rightarrow> (cashtag, Error_Text)
      | Inr b \<Rightarrow> (cashtag, b))"



section \<open>The scheduled job: \<^verbatim>\<open>run_scheduled_job\<close> of \<^verbatim>\<open>src/wom/main.py\<close>\<close>





section \<open>Example inputs\<close>

text \<open>
  Two feed items with the symbol \<^verbatim>\<open>$XYZ\<close> that pass the filter, a later sighting of the
  same token, an item without an age, and an item with the symbol \<^verbatim>\<open>$ABC\<close> that passes
  the filter.
\<close>

definition xyz_first :: item where
  "xyz_first = \<lparr> item_tokenName = Some (pystr ''Xyz One''),
     item_tokenSymbol = Some (pystr ''Xyz XYZ''),
     item_age = Some 10, item_volumeUsd = Some 200000, item_makerCount = Some 8000,
     item_liquidityUsd = Some 60000, item_marketCapUsd = Some 300000,
     item_priceChange1h = Some 2, item_address = Some (pystr ''addr1'') \<rparr>"

definition xyz_second :: item where
  "xyz_second = \<lparr> item_tokenName = Some (pystr ''Xyz Two''),
     item_tokenSymbol = Some (pystr ''Xyz CPMM XYZ''),
     item_age = Some 5, item_volumeUsd = Some 250000, item_makerCount = Some 9000,
     item_liquidityUsd = Some 70000, item_marketCapUsd = Some 400000,
     item_priceChange1h = Some 3, item_address = Some (pystr ''addr2'') \<rparr>"

definition xyz_later :: item where
  "xyz_later = \<lparr> item_tokenName = Some (pystr ''Xyz One''),
     item_tokenSymbol = Some (pystr ''Xyz XYZ''),
     item_age = Some 11, item_volumeUsd = Some 210000, item_makerCount = Some 9500,
     item_liquidityUsd = Some 61000, item_marketCapUsd = Some 310000,
     item_priceChange1h = Some 1, item_address = Some (pystr ''addr1'') \<rparr>"

definition no_age :: item where
  "no_age = \<lparr> item_tokenName = Some (pystr ''Abc''),
     item_tokenSymbol = Some (pystr ''Abc ABC''),
     item_age = None, item_volumeUsd = Some 900000, item_makerCount = Some 50000,
     item_liquidityUsd = Some 900000, item_marketCapUsd = Some 900000,
     item_priceChange1h = Some 1, item_address = Some (pystr ''addr3'') \<rparr>"


text \<open>
  The store after a first cycle that finds \<open>xyz_first\<close>, at a time within the second
  \<open>1700000000\<close>, and after a cycle thirty minutes later that finds \<open>xyz_later\<close>.
\<close>

definition first_cycle :: tokens_table where
  "first_cycle = store_tokens (\<lambda>i. 1700000000123456) (get_filtered_pairs [xyz_first]) Map.empty"

definition later_cycle :: tokens_table where
  "later_cycle = store_tokens (\<lambda>i. 1700001800654321) (get_filtered_pairs [xyz_later]) first_cycle"

text \<open>
  A row of \<^verbatim>\<open>$XYZ\<close> that has a score, a row created 25 hours before the time
  \<open>1700090000000000\<close>, and a row without an age created one hour before it.
\<close>

definition xyz_scored :: row where
  "xyz_scored = \<lparr> token_name = pystr ''Xyz One'', token_symbol = pystr ''$XYZ'',
     address = pystr ''addr1'',
     age_hours = Some 10, volume_usd = 200000, maker_count = 8000, liquidity_usd = 60000,
     market_cap_usd = 300000, priceChange1h = 2,
     dex_url = pystr ''https://dexscreener.com/solana/addr1'',
     wom_score = Some (4 / 5), tweet_count = Some 2, created_at = 1700000000000000 \<rparr>"

definition stale_row :: row where
  "stale_row = xyz_scored \<lparr> created_at := 1700090000000000 - 25 * 3600000000 \<rparr>"

definition fresh_row_without_age :: row where
  "fresh_row_without_age =
     xyz_scored \<lparr> token_symbol := pystr ''$NEW'', age_hours := None,
                  created_at := 1700090000000000 - 3600000000 \<rparr>"

definition two_rows :: tokens_table where
  "two_rows = [pystr ''$XYZ'' \<mapsto> stale_row, pystr ''$NEW'' \<mapsto> fresh_row_without_age]"

text \<open>
  Services for the scoring scenario of the specification. The helpers return; the
  classifier raises for the text \<^verbatim>\<open>boom\<close> and gives the other texts the bullishness 0.9
  or 0.7. The feed has three posts for \<^verbatim>\<open>$XYZ\<close>, one of them by an author with fewer
  than 150 followers; for \<^verbatim>\<open>$NUL\<close> a post whose follower count is null; for \<^verbatim>\<open>$MID\<close> a
  post and then an exception of the iteration; for \<^verbatim>\<open>$CLS\<close> a post with the text
  \<^verbatim>\<open>boom\<close>; for every other search term the call raises.
\<close>

definition xyz_posts :: "(exn + post) list" where
  "xyz_posts =
     [Inr \<lparr> post_text = Present (pystr ''XYZ up''), post_userFollowersCount = Present 2000 \<rparr>,
      Inr \<lparr> post_text = Present (pystr ''XYZ spam''), post_userFollowersCount = Present 12 \<rparr>,
      Inr \<lparr> post_text = Present (pystr '' XYZ fine ''), post_userFollowersCount = Present 150 \<rparr>]"

definition example_feed :: "str \<Rightarrow> exn + (exn + post) list" where
  "example_feed search_term =
     (if search_term = pystr ''$XYZ'' then Inr xyz_posts
      else if search_term = pystr ''$NUL'' then
        Inr [Inr \<lparr> post_text = Present (pystr ''NUL up''), post_userFollowersCount = Ill_typed \<rparr>]
      else if search_term = pystr ''$MID'' then
        Inr [Inr \<lparr> post_text = Present (pystr ''MID up''), post_userFollowersCount = Present 900 \<rparr>,
             Inl (Raised ''connection lost'')]
      else if search_term = pystr ''$CLS'' then
        Inr [Inr \<lparr> post_text = Present (pystr ''boom''), post_userFollowersCount = Present 900 \<rparr>]
      else Inl (Raised ''feed error''))"

definition example_services :: services where
  "example_services =
     \<lparr> preprocess_tweet = (\<lambda>s. Inr s),
       is_relevant_tweet = (\<lambda>s. Inr True),
       classify = (\<lambda>s. if s = pystr ''boom'' then Inl (Raised ''tokenizer'')
                        else if s = pystr ''XYZ up'' then Inr (9 / 10, 0, 1 / 10)
                        else Inr (7 / 10, 0, 3 / 10)),
       run_actor = example_feed \<rparr>"

text \<open>
  Services whose feed has, for every search term, one post by an author with too few
  followers.
\<close>

definition quiet_services :: services where
  "quiet_services =
     example_services \<lparr> run_actor :=
       (\<lambda>search_term.
          Inr [Inr \<lparr> post_text = Present (pystr ''XYZ spam''),
                     post_userFollowersCount = Present 12 \<rparr>]) \<rparr>"



section \<open>Properties\<close>

subsection \<open>The loops of the discovery\<close>

lemma split_loop_no_space:
  "\<forall>c \<in> set s. \<not> is_space c \<Longrightarrow> split_loop cur s = (if cur @ s = [] then [] else [cur @ s])"
  by (induction s arbitrary: cur) auto

lemma filter_loop_first_seen:
  "filter_loop items acc seen = acc @ first_seen seen (admitted items)"
  by (induction items arbitrary: acc seen) (auto simp: admitted_def)

lemma first_seen_symbols:
  "set (map token_symbol (first_seen seen ts)) = set (map token_symbol ts) - seen"
  by (induction ts arbitrary: seen) auto

lemma first_seen_distinct: "distinct (map token_symbol (first_seen seen ts))"
proof (induction ts arbitrary: seen)
  case Nil
  then show ?case by simp
next
  case (Cons t ts)
  have "token_symbol t \<notin> set (map token_symbol (first_seen (insert (token_symbol t) seen) ts))"
    unfolding first_seen_symbols by simp
  with Cons show ?case by simp
qed

lemma first_seen_subseq: "subseq (first_seen seen ts) ts"
  by (induction ts arbitrary: seen) auto

lemma first_seen_find:
  "k \<notin> seen \<Longrightarrow>
   find (\<lambda>t. token_symbol t = k) (first_seen seen ts) = find (\<lambda>t. token_symbol t = k) ts"
proof (induction ts arbitrary: seen)
  case Nil
  then show ?case by simp
next
  case (Cons t ts)
  show ?case
  proof (cases "token_symbol t = k")
    case True
    with Cons.prems show ?thesis by simp
  next
    case False
    with Cons show ?thesis by auto
  qed
qed

subsection \<open>Evaluating the examples\<close>

lemmas symbol_eval = extract_and_format_symbol_def format_symbol_def py_split_def is_space_def
  index_def pool_markers_def strip_def pystr_def

lemmas filter_eval = passes_filter_def get_default_def MAX_AGE_def MIN_MAKERS_def

lemma xyz_symbols:
  "token_symbol (candidate xyz_first) = pystr ''$XYZ''"
  "token_symbol (candidate xyz_second) = pystr ''$XYZ''"
  "token_symbol (candidate xyz_later) = pystr ''$XYZ''"
  by (simp_all add: candidate_def xyz_first_def xyz_second_def xyz_later_def get_default_def
      symbol_eval)

lemma xyz_pass:
  "passes_filter xyz_first" "passes_filter xyz_second" "passes_filter xyz_later"
  "\<not> passes_filter no_age"
  by (simp_all add: filter_eval xyz_first_def xyz_second_def xyz_later_def no_age_def)




subsection \<open>The symbol normalizer\<close>

text \<open>
  Whitespace beyond ASCII separates the pieces of a label as well: a no-break space
  (U+00A0), an ideographic space (U+3000), a next-line character (U+0085).
\<close>

lemma labels_with_other_whitespace:
  "extract_and_format_symbol (pystr ''Foo'' @ [0xA0] @ pystr ''BAR'') = pystr ''$BAR''"
  "extract_and_format_symbol (pystr ''Foo'' @ [0x3000] @ pystr ''CLMM'' @ [0x85] @ pystr ''BAR'')
     = pystr ''$BAR''"
  by (simp_all add: symbol_eval)

text \<open>
  C6. On the label \<^verbatim>\<open>Foo DLMM BAR\<close> the normalizer yields \<^verbatim>\<open>$BAR\<close>, on \<^verbatim>\<open>Foo BAR\<close> it
  yields \<^verbatim>\<open>$BAR\<close>, and on every label with too few pieces (fewer than two, or two of
  which the second is a pool marker) the body raises IndexError and the function returns
  the sentinel \<^verbatim>\<open>$Unknown\<close>; a label without whitespace, which is a single piece or
  empty, is such a label.
\<close>

theorem symbol_normalizer:
  "extract_and_format_symbol (pystr ''Foo DLMM BAR'') = pystr ''$BAR'' \<and>
   extract_and_format_symbol (pystr ''Foo BAR'') = pystr ''$BAR'' \<and>
   (length (py_split s) < 2 \<or> (length (py_split s) = 2 \<and> py_split s ! 1 \<in> set pool_markers)
      \<longrightarrow> format_symbol s = Inl IndexError \<and> extract_and_format_symbol s = pystr ''$Unknown'') \<and>
   ((\<forall>c \<in> set s. \<not> is_space c) \<longrightarrow> extract_and_format_symbol s = pystr ''$Unknown'')"
proof (intro conjI impI)
  show "extract_and_format_symbol (pystr ''Foo DLMM BAR'') = pystr ''$BAR''"
    by (simp add: symbol_eval)
  show "extract_and_format_symbol (pystr ''Foo BAR'') = pystr ''$BAR''"
    by (simp add: symbol_eval)
next
  assume "length (py_split s) < 2 \<or>
          (length (py_split s) = 2 \<and> py_split s ! 1 \<in> set pool_markers)"
  then show "format_symbol s = Inl IndexError"
    by (auto simp: format_symbol_def index_def Let_def)
  then show "extract_and_format_symbol s = pystr ''$Unknown''"
    by (simp add: extract_and_format_symbol_def)
next
  assume "\<forall>c \<in> set s. \<not> is_space c"
  then have "length (py_split s) < 2"
    by (simp add: py_split_def split_loop_no_space)
  then show "extract_and_format_symbol s = pystr ''$Unknown''"
    by (simp add: extract_and_format_symbol_def format_symbol_def index_def Let_def)
qed

theorem symbol_normalizer_witness:
  "py_split (pystr ''Foo'') = [pystr ''Foo''] \<and>
   extract_and_format_symbol (pystr ''Foo'') = pystr ''$Unknown'' \<and>
   length (py_split (pystr ''Foo DLMM'')) = 2 \<and>
   extract_and_format_symbol (pystr ''Foo DLMM'') = pystr ''$Unknown''"
proof -
  have one: "py_split (pystr ''Foo'') = [pystr ''Foo'']"
    by (simp add: py_split_def is_space_def pystr_def)
  have two: "length (py_split (pystr ''Foo DLMM'')) = 2 \<and>
      py_split (pystr ''Foo DLMM'') ! 1 \<in> set pool_markers"
    by (simp add: py_split_def is_space_def pool_markers_def pystr_def)
  from one two symbol_normalizer [of "pystr ''Foo''"] symbol_normalizer [of "pystr ''Foo DLMM''"]
  show ?thesis by simp
qed

subsection \<open>The candidate filter\<close>

text \<open>
  C5. The filter admits an item if and only if its age is present and at most 24 and its
  maker count is present and at least 7000 (a missing count is 0); an item without an age
  is rejected whatever its other fields are; and a batch of one item yields the item's
  candidate exactly when the filter admits it.
\<close>

theorem candidate_filter:
  "(passes_filter it \<longleftrightarrow>
      (\<exists>a. item_age it = Some a \<and> a \<le> 24) \<and> (\<exists>m. item_makerCount it = Some m \<and> m \<ge> 7000)) \<and>
   (item_age it = None \<longrightarrow> \<not> passes_filter it) \<and>
   get_filtered_pairs [it] = (if passes_filter it then [candidate it] else [])"
proof (intro conjI impI)
  show "passes_filter it \<longleftrightarrow>
      (\<exists>a. item_age it = Some a \<and> a \<le> 24) \<and> (\<exists>m. item_makerCount it = Some m \<and> m \<ge> 7000)"
  proof (cases "item_age it")
    case None
    then show ?thesis by (simp add: passes_filter_def)
  next
    case (Some a)
    show ?thesis
    proof (cases "item_makerCount it")
      case None
      with Some show ?thesis by (simp add: filter_eval)
    next
      case (Some m)
      with \<open>item_age it = Some a\<close> show ?thesis by (simp add: filter_eval)
    qed
  qed
  show "\<not> passes_filter it" if "item_age it = None"
    using that by (simp add: passes_filter_def)
  show "get_filtered_pairs [it] = (if passes_filter it then [candidate it] else [])"
    by (simp add: get_filtered_pairs_def)
qed

theorem candidate_filter_witness:
  "item_age no_age = None \<and> item_makerCount no_age = Some 50000 \<and> \<not> passes_filter no_age \<and>
   get_filtered_pairs [no_age] = [] \<and>
   passes_filter xyz_first \<and> get_filtered_pairs [xyz_first] = [candidate xyz_first]"
proof -
  have none: "item_age no_age = None" "item_makerCount no_age = Some 50000"
    by (simp_all add: no_age_def)
  have some: "item_age xyz_first = Some 10 \<and> (10::real) \<le> 24"
    "item_makerCount xyz_first = Some 8000 \<and> (8000::int) \<ge> 7000"
    by (simp_all add: xyz_first_def)
  from none some candidate_filter [of no_age] candidate_filter [of xyz_first]
  show ?thesis by auto
qed

subsection \<open>The deduplicator\<close>

text \<open>
  C2. For every batch, no two entries of the output have the same symbol; the output is
  a subsequence of the admitted candidates, so their order is kept; for every admitted
  candidate, the entry of the output with its symbol is the first admitted candidate
  with that symbol; and the output is the first-seen selection of the specification.
  The function returns a list for every batch: a duplicate is no error.
\<close>

theorem first_seen_wins:
  "distinct (map token_symbol (get_filtered_pairs items)) \<and>
   subseq (get_filtered_pairs items) (map candidate (filter passes_filter items)) \<and>
   (\<forall>c \<in> set (map candidate (filter passes_filter items)).
      find (\<lambda>t. token_symbol t = token_symbol c) (get_filtered_pairs items) =
      find (\<lambda>t. token_symbol t = token_symbol c) (map candidate (filter passes_filter items))) \<and>
   get_filtered_pairs items = first_seen {} (map candidate (filter passes_filter items))"
proof -
  have eq: "get_filtered_pairs items = first_seen {} (admitted items)"
    by (simp add: get_filtered_pairs_def filter_loop_first_seen)
  show ?thesis
    unfolding eq
    by (simp add: first_seen_distinct first_seen_subseq first_seen_find admitted_def)
qed

theorem first_seen_wins_witness:
  "token_symbol (candidate xyz_first) = pystr ''$XYZ'' \<and>
   token_symbol (candidate xyz_second) = pystr ''$XYZ'' \<and>
   passes_filter xyz_first \<and> passes_filter xyz_second \<and> passes_filter no_age = False \<and>
   get_filtered_pairs [no_age, xyz_first, xyz_second] = [candidate xyz_first] \<and>
   distinct (map token_symbol (get_filtered_pairs [no_age, xyz_first, xyz_second]))"
  using xyz_symbols xyz_pass first_seen_wins [of "[no_age, xyz_first, xyz_second]"]
  by simp

subsection \<open>The token store\<close>

lemma store_loop_other:
  "k \<notin> set (map token_symbol ts) \<Longrightarrow> store_loop clock n ts db k = db k"
  by (induction ts arbitrary: n db) (auto simp: insert_or_replace_def)

lemma store_loop_row:
  "distinct (map token_symbol ts) \<Longrightarrow> i < length ts \<Longrightarrow>
   store_loop clock n ts db (token_symbol (ts ! i)) =
   insert_or_replace (clock (n + i)) (ts ! i) Map.empty (token_symbol (ts ! i))"
proof (induction ts arbitrary: n db i)
  case Nil
  then show ?case by simp
next
  case (Cons t ts)
  show ?case
  proof (cases i)
    case 0
    from Cons.prems have "token_symbol t \<notin> set (map token_symbol ts)" by simp
    then have "store_loop clock (Suc n) ts (insert_or_replace (clock n) t db) (token_symbol t)
               = insert_or_replace (clock n) t db (token_symbol t)"
      by (rule store_loop_other)
    with 0 show ?thesis by (simp add: insert_or_replace_def)
  next
    case (Suc j)
    with Cons.prems have "distinct (map token_symbol ts)" "j < length ts" by simp_all
    from Cons.IH [OF this, of "Suc n" "insert_or_replace (clock n) t db"] Suc
    show ?thesis by simp
  qed
qed

lemma store_loop_resets:
  "k \<in> set (map token_symbol ts) \<or>
   (\<exists>r. db k = Some r \<and> wom_score r = None \<and> tweet_count r = None) \<Longrightarrow>
   \<exists>r. store_loop clock n ts db k = Some r \<and> wom_score r = None \<and> tweet_count r = None"
proof (induction ts arbitrary: n db)
  case Nil
  then show ?case by simp
next
  case (Cons t ts)
  have "k \<in> set (map token_symbol ts) \<or>
        (\<exists>r. insert_or_replace (clock n) t db k = Some r \<and> wom_score r = None \<and> tweet_count r = None)"
    using Cons.prems by (auto simp: insert_or_replace_def)
  then have "\<exists>r. store_loop clock (Suc n) ts (insert_or_replace (clock n) t db) k = Some r \<and>
             wom_score r = None \<and> tweet_count r = None"
    by (rule Cons.IH)
  then show ?case by simp
qed

text \<open>
  The part of the upsert that replaces: after a batch of distinct symbols has been
  stored, the row of each of its tokens has the tracked fields of that token.
\<close>

lemma upsert_replaces_tracked_fields:
  assumes "distinct (map token_symbol tokens)" and "i < length tokens"
  shows "\<exists>r. store_tokens clock tokens db (token_symbol (tokens ! i)) = Some r \<and>
      token_symbol r = token_symbol (tokens ! i) \<and>
      token_name r = token_name (tokens ! i) \<and>
      address r = address (tokens ! i) \<and>
      age_hours r = age_hours (tokens ! i) \<and>
      volume_usd r = volume_usd (tokens ! i) \<and>
      maker_count r = maker_count (tokens ! i) \<and>
      liquidity_usd r = liquidity_usd (tokens ! i) \<and>
      market_cap_usd r = market_cap_usd (tokens ! i) \<and>
      dex_url r = pystr ''https://dexscreener.com/solana/'' @ address (tokens ! i) \<and>
      priceChange1h r = priceChange1h (tokens ! i)"
  using store_loop_row [OF assms, of clock 0 db]
  by (simp add: store_tokens_def insert_or_replace_def)

lemma first_cycle_xyz:
  "first_cycle (pystr ''$XYZ'') =
     Some \<lparr> token_name = pystr ''Xyz One'', token_symbol = pystr ''$XYZ'',
            address = pystr ''addr1'',
            age_hours = Some 10, volume_usd = 200000, maker_count = 8000, liquidity_usd = 60000,
            market_cap_usd = 300000, priceChange1h = 2,
            dex_url = pystr ''https://dexscreener.com/solana/addr1'',
            wom_score = None, tweet_count = None, created_at = 1700000000000000 \<rparr>"
proof -
  have "get_filtered_pairs [xyz_first] = [candidate xyz_first]"
    by (simp add: get_filtered_pairs_def xyz_pass)
  then show ?thesis
    by (simp add: first_cycle_def store_tokens_def insert_or_replace_def xyz_symbols
        CURRENT_TIMESTAMP_def)
      (simp add: candidate_def xyz_first_def get_default_def pystr_def)
qed

lemma later_cycle_xyz:
  "later_cycle (pystr ''$XYZ'') =
     insert_or_replace 1700001800654321 (candidate xyz_later) first_cycle (pystr ''$XYZ'')"
proof -
  have "get_filtered_pairs [xyz_later] = [candidate xyz_later]"
    by (simp add: get_filtered_pairs_def xyz_pass)
  then show ?thesis
    by (simp add: later_cycle_def store_tokens_def)
qed

text \<open>
  C1. The creation timestamp of a token that is upserted again remains that of its first
  insertion: the code does not keep it. A first cycle stores \<^verbatim>\<open>$XYZ\<close> within the second
  \<open>1700000000\<close>; a cycle thirty minutes later upserts the same symbol with the maker count
  9500. The row then has the new maker count, and as creation timestamp the second of
  the later cycle. So the eviction that runs 24 hours after the first insertion, which
  deletes the row of the first cycle, keeps the row of the later one.
\<close>

theorem upsert_resets_created_at:
  "map_option created_at (first_cycle (pystr ''$XYZ'')) = Some 1700000000000000 \<and>
   map_option maker_count (later_cycle (pystr ''$XYZ'')) = Some 9500 \<and>
   map_option created_at (later_cycle (pystr ''$XYZ'')) = Some 1700001800000000 \<and>
   map_option created_at (later_cycle (pystr ''$XYZ''))
     \<noteq> map_option created_at (first_cycle (pystr ''$XYZ'')) \<and>
   delete_old_tokens (1700000000000000 + 86400000000) first_cycle (pystr ''$XYZ'') = None \<and>
   map_option created_at
     (delete_old_tokens (1700000000000000 + 86400000000) later_cycle (pystr ''$XYZ''))
     = Some 1700001800000000"
proof -
  have first_time: "map_option created_at (first_cycle (pystr ''$XYZ'')) = Some 1700000000000000"
    by (simp add: first_cycle_xyz)
  have makers: "map_option maker_count (later_cycle (pystr ''$XYZ'')) = Some 9500"
    unfolding later_cycle_xyz
    by (simp add: insert_or_replace_def xyz_symbols)
      (simp add: candidate_def xyz_later_def get_default_def)
  have later_row: "\<exists>r. later_cycle (pystr ''$XYZ'') = Some r \<and> created_at r = 1700001800000000"
    unfolding later_cycle_xyz
    by (simp add: insert_or_replace_def xyz_symbols CURRENT_TIMESTAMP_def)
  then have later_time:
    "map_option created_at (later_cycle (pystr ''$XYZ'')) = Some 1700001800000000"
    by auto
  have evicted: "delete_old_tokens (1700000000000000 + 86400000000) first_cycle (pystr ''$XYZ'') = None"
    by (simp add: delete_old_tokens_def hours_def first_cycle_xyz)
  from later_row have kept: "map_option created_at
     (delete_old_tokens (1700000000000000 + 86400000000) later_cycle (pystr ''$XYZ''))
     = Some 1700001800000000"
    by (auto simp: delete_old_tokens_def hours_def)
  show ?thesis
    unfolding first_time makers later_time using evicted kept by simp
qed

text \<open>
  C9. For every token already present in the store with a wom score and a tweet count,
  an upsert of a batch that holds the same symbol leaves the row with both columns
  null.
\<close>

theorem upsert_resets_sentiment:
  assumes "db (token_symbol t) = Some old" and "wom_score old = Some w"
    and "tweet_count old = Some c" and "t \<in> set tokens"
  shows "\<exists>r. store_tokens clock tokens db (token_symbol t) = Some r \<and>
             wom_score r = None \<and> tweet_count r = None"
proof -
  from assms(4) have "token_symbol t \<in> set (map token_symbol tokens)" by simp
  then show ?thesis
    unfolding store_tokens_def by (intro store_loop_resets) simp
qed

theorem upsert_resets_sentiment_witness:
  "wom_score xyz_scored = Some (4 / 5) \<and> tweet_count xyz_scored = Some 2 \<and>
   (\<exists>r. store_tokens (\<lambda>i. 1700001800654321) [candidate xyz_later]
           [pystr ''$XYZ'' \<mapsto> xyz_scored] (pystr ''$XYZ'')
           = Some r \<and> wom_score r = None \<and> tweet_count r = None)"
proof -
  have old: "[pystr ''$XYZ'' \<mapsto> xyz_scored] (token_symbol (candidate xyz_later)) = Some xyz_scored"
    by (simp add: xyz_symbols)
  have v: "wom_score xyz_scored = Some (4 / 5)" "tweet_count xyz_scored = Some 2"
    by (simp_all add: xyz_scored_def)
  have m: "candidate xyz_later \<in> set [candidate xyz_later]" by simp
  from old v m
    upsert_resets_sentiment [of "[pystr ''$XYZ'' \<mapsto> xyz_scored]" "candidate xyz_later" xyz_scored
      "4 / 5" 2 "[candidate xyz_later]" "\<lambda>i. 1700001800654321"]
  show ?thesis by (simp add: xyz_symbols)
qed

text \<open>
  C3. Called at the time \<open>now\<close>, the eviction deletes exactly the rows whose creation
  timestamp is at or before \<open>now\<close> minus 24 hours (86400000000 microseconds): these are
  the symbols that leave the table, and every other row stays as it is; in particular a
  row without an age whose creation timestamp is later than that stays in the store.
\<close>

theorem eviction_by_created_at:
  "dom db - dom (delete_old_tokens now db) =
     {k. \<exists>r. db k = Some r \<and> created_at r \<le> now - 86400000000} \<and>
   delete_old_tokens now db \<subseteq>\<^sub>m db \<and>
   (db k = Some r \<and> age_hours r = None \<and> now - 86400000000 < created_at r
      \<longrightarrow> delete_old_tokens now db k = Some r)"
proof (intro conjI impI)
  have cutoff: "now - hours 24 = now - 86400000000"
    by (simp add: hours_def)
  have gone: "delete_old_tokens now db j = None \<longleftrightarrow>
      db j = None \<or> (\<exists>r. db j = Some r \<and> created_at r \<le> now - 86400000000)" for j
    by (cases "db j") (simp_all add: delete_old_tokens_def cutoff)
  have kept: "delete_old_tokens now db j = Some r' \<longleftrightarrow>
      db j = Some r' \<and> now - 86400000000 < created_at r'" for j r'
    by (cases "db j") (auto simp: delete_old_tokens_def cutoff)
  show "dom db - dom (delete_old_tokens now db) =
     {k. \<exists>r. db k = Some r \<and> created_at r \<le> now - 86400000000}"
  proof (rule set_eqI)
    fix j
    have "j \<in> dom db - dom (delete_old_tokens now db) \<longleftrightarrow>
          db j \<noteq> None \<and> delete_old_tokens now db j = None"
      by (simp add: dom_def)
    also have "\<dots> \<longleftrightarrow> (\<exists>r. db j = Some r \<and> created_at r \<le> now - 86400000000)"
      unfolding gone by auto
    finally show "j \<in> dom db - dom (delete_old_tokens now db) \<longleftrightarrow>
        j \<in> {k. \<exists>r. db k = Some r \<and> created_at r \<le> now - 86400000000}"
      by simp
  qed
  show "delete_old_tokens now db \<subseteq>\<^sub>m db"
    unfolding map_le_def
  proof
    fix j
    assume "j \<in> dom (delete_old_tokens now db)"
    then obtain r' where "delete_old_tokens now db j = Some r'" by auto
    moreover from this have "db j = Some r'" by (simp add: kept)
    ultimately show "delete_old_tokens now db j = db j" by simp
  qed
  assume "db k = Some r \<and> age_hours r = None \<and> now - 86400000000 < created_at r"
  then show "delete_old_tokens now db k = Some r"
    by (simp add: kept)
qed

theorem eviction_by_created_at_witness:
  "two_rows (pystr ''$XYZ'') = Some stale_row \<and>
   created_at stale_row \<le> 1700090000000000 - 86400000000 \<and>
   delete_old_tokens 1700090000000000 two_rows (pystr ''$XYZ'') = None \<and>
   two_rows (pystr ''$NEW'') = Some fresh_row_without_age \<and>
   age_hours fresh_row_without_age = None \<and>
   1700090000000000 - 86400000000 < created_at fresh_row_without_age \<and>
   delete_old_tokens 1700090000000000 two_rows (pystr ''$NEW'') = Some fresh_row_without_age"
proof -
  have rows: "two_rows (pystr ''$XYZ'') = Some stale_row"
    "two_rows (pystr ''$NEW'') = Some fresh_row_without_age"
    by (simp_all add: two_rows_def pystr_def)
  have times: "created_at stale_row \<le> 1700090000000000 - 86400000000"
    "1700090000000000 - 86400000000 < created_at fresh_row_without_age"
    "age_hours fresh_row_without_age = None"
    by (simp_all add: stale_row_def fresh_row_without_age_def xyz_scored_def)
  note ev = eviction_by_created_at [of two_rows 1700090000000000 "pystr ''$NEW''"
      fresh_row_without_age]
  from rows(1) times(1)
  have "pystr ''$XYZ'' \<in>
      {k. \<exists>r. two_rows k = Some r \<and> created_at r \<le> 1700090000000000 - 86400000000}"
    by simp
  with ev have "pystr ''$XYZ'' \<in> dom two_rows - dom (delete_old_tokens 1700090000000000 two_rows)"
    by blast
  then have "delete_old_tokens 1700090000000000 two_rows (pystr ''$XYZ'') = None"
    by (simp add: dom_def)
  with rows times ev show ?thesis by simp
qed

subsection \<open>Rounding\<close>

lemma round_half_even_near: "\<bar>of_int (round_half_even y) - y\<bar> \<le> 1 / 2"
proof -
  have "of_int \<lfloor>y\<rfloor> \<le> y" "y < of_int \<lfloor>y\<rfloor> + 1" by linarith+
  then show ?thesis
    by (auto simp: round_half_even_def Let_def)
qed

lemma round_half_even_le: "y \<le> of_int n \<Longrightarrow> round_half_even y \<le> n"
proof -
  assume le: "y \<le> of_int n"
  then have fl: "\<lfloor>y\<rfloor> \<le> n" by (simp add: floor_le_iff)
  show ?thesis
  proof (cases "\<lfloor>y\<rfloor> = n")
    case True
    then have "y = of_int \<lfloor>y\<rfloor>" using le by linarith
    then show ?thesis using True by (simp add: round_half_even_def Let_def)
  next
    case False
    with fl have "\<lfloor>y\<rfloor> + 1 \<le> n" by simp
    then show ?thesis by (auto simp: round_half_even_def Let_def)
  qed
qed

lemma round_half_even_ge: "of_int n \<le> y \<Longrightarrow> n \<le> round_half_even y"
proof -
  assume "of_int n \<le> y"
  then have "n \<le> \<lfloor>y\<rfloor>" by (simp add: le_floor_iff)
  then show ?thesis by (auto simp: round_half_even_def Let_def)
qed

lemma round2_near: "\<bar>round2 x - x\<bar> \<le> 1 / 200"
proof -
  have "\<bar>of_int (round_half_even (x * 100)) - x * 100\<bar> \<le> 1 / 2"
    by (rule round_half_even_near)
  then show ?thesis by (simp add: round2_def field_simps abs_le_iff)
qed

lemma round2_nonneg: "0 \<le> x \<Longrightarrow> 0 \<le> round2 x"
  using round_half_even_ge [of 0 "x * 100"] by (simp add: round2_def)

lemma round2_le_one: "x \<le> 1 \<Longrightarrow> round2 x \<le> 1"
  using round_half_even_le [of "x * 100" 100] by (simp add: round2_def)

lemma round2_hundredth: "\<exists>n::int. round2 x = of_int n / 100"
  by (auto simp: round2_def)

subsection \<open>The score aggregator\<close>

lemma rounded_mean_Some:
  "rounded_mean (map Some xs) = Some (round2 (sum_list xs / of_nat (length xs)))"
  by (auto simp: rounded_mean_def comp_def)

lemma try_cashtag_scores:
  "run_actor sv (search_term_analysis cashtag) = Inr items \<Longrightarrow>
   scores_loop sv items [] = Inr bullishness_scores \<Longrightarrow>
   analyze_cashtag sv cashtag = (cashtag, aggregate bullishness_scores)"
  by (simp add: analyze_cashtag_def try_cashtag_def)

text \<open>
  C4. On the empty sequence the aggregator returns \<^verbatim>\<open>None\<close>, which is no number; on a
  non-empty sequence of numbers it returns their arithmetic mean rounded to two decimal
  places: a multiple of \<open>1/100\<close> at most \<open>1/200\<close> away from the mean; on
  \<open>[0.8, 0.6, 0.4]\<close> it returns \<open>0.60\<close>; and a cashtag whose feed has no qualifying post
  gets the row with \<^verbatim>\<open>None\<close>.
\<close>

theorem score_aggregator:
  "aggregate [] = No_Signal \<and> (\<forall>v. aggregate [] \<noteq> Bullishness v) \<and>
   (xs \<noteq> [] \<longrightarrow>
      (\<exists>r. aggregate (map Some xs) = Bullishness (Some r) \<and>
           r = round2 (sum_list xs / of_nat (length xs)) \<and>
           (\<exists>n::int. r = of_int n / 100) \<and>
           \<bar>r - sum_list xs / of_nat (length xs)\<bar> \<le> 1 / 200)) \<and>
   aggregate [Some (8 / 10), Some (6 / 10), Some (4 / 10)] = Bullishness (Some (60 / 100)) \<and>
   (run_actor sv (search_term_analysis cashtag) = Inr items \<and> scores_loop sv items [] = Inr []
      \<longrightarrow> analyze_cashtag sv cashtag = (cashtag, No_Signal))"
proof (intro conjI impI allI)
  show "aggregate [] = No_Signal" by (simp add: aggregate_def)
  show "aggregate [] \<noteq> Bullishness v" for v by (simp add: aggregate_def)
  show "aggregate [Some (8 / 10), Some (6 / 10), Some (4 / 10)] = Bullishness (Some (60 / 100))"
    by (simp add: aggregate_def rounded_mean_def round2_def round_half_even_def)
next
  assume "xs \<noteq> []"
  then have "aggregate (map Some xs) = Bullishness (Some (round2 (sum_list xs / of_nat (length xs))))"
    by (simp add: aggregate_def rounded_mean_Some)
  then show "\<exists>r. aggregate (map Some xs) = Bullishness (Some r) \<and>
           r = round2 (sum_list xs / of_nat (length xs)) \<and>
           (\<exists>n::int. r = of_int n / 100) \<and>
           \<bar>r - sum_list xs / of_nat (length xs)\<bar> \<le> 1 / 200"
    using round2_near round2_hundredth by simp
next
  assume "run_actor sv (search_term_analysis cashtag) = Inr items \<and>
          scores_loop sv items [] = Inr []"
  then show "analyze_cashtag sv cashtag = (cashtag, No_Signal)"
    by (simp add: try_cashtag_scores aggregate_def)
qed

theorem score_aggregator_witness:
  "[9 / 10, 7 / 10] \<noteq> ([] :: real list) \<and>
   aggregate (map Some [9 / 10, 7 / 10]) = Bullishness (Some (80 / 100)) \<and>
   run_actor quiet_services (search_term_analysis (pystr ''$XYZ'')) \<noteq> Inr [] \<and>
   scores_loop quiet_services
     [Inr \<lparr> post_text = Present (pystr ''XYZ spam''), post_userFollowersCount = Present 12 \<rparr>] []
     = Inr [] \<and>
   analyze_cashtag quiet_services (pystr ''$XYZ'') = (pystr ''$XYZ'', No_Signal)"
proof -
  have feed: "run_actor quiet_services (search_term_analysis (pystr ''$XYZ''))
      = Inr [Inr \<lparr> post_text = Present (pystr ''XYZ spam''), post_userFollowersCount = Present 12 \<rparr>]"
    by (simp add: quiet_services_def)
  have none: "scores_loop quiet_services
      [Inr \<lparr> post_text = Present (pystr ''XYZ spam''), post_userFollowersCount = Present 12 \<rparr>] []
      = Inr []"
    by (simp add: quiet_services_def example_services_def)
  have mean: "round2 (sum_list [9 / 10, 7 / 10] / of_nat (length [9 / 10, 7 / 10 :: real])) = 80 / 100"
    by (simp add: round2_def round_half_even_def)
  from feed none mean
    score_aggregator [of "[9 / 10, 7 / 10]" quiet_services "pystr ''$XYZ''"
      "[Inr \<lparr> post_text = Present (pystr ''XYZ spam''), post_userFollowersCount = Present 12 \<rparr>]"]
  show ?thesis by auto
qed

subsection \<open>The sentiment scorer\<close>

text \<open>
  C7, as the specification states it: the scorer returns
  \<open>bullish_prob / (bullish_prob + bearish_prob)\<close>. For the probabilities 0.1, 0.7 and 0.2
  that ratio is \<open>1/3\<close>, also when it is taken of the percentages 10 and 20 that the code
  computes first; the scorer returns 0.33.
\<close>

theorem calculate_bullishness_counterexample:
  "(1 / 10 + 7 / 10 + 2 / 10 = (1::real)) \<and>
   calculate_bullishness (\<lambda>text. Inr (1 / 10, 7 / 10, 2 / 10)) (pystr ''to the moon'')
     = Inr (Some (33 / 100)) \<and>
   (1 / 10) / (1 / 10 + 2 / 10) = (1 / 3 :: real) \<and>
   round2 (1 / 10 * 100) / (round2 (1 / 10 * 100) + round2 (2 / 10 * 100)) = 1 / 3 \<and>
   calculate_bullishness (\<lambda>text. Inr (1 / 10, 7 / 10, 2 / 10)) (pystr ''to the moon'')
     \<noteq> Inr (Some ((1 / 10) / (1 / 10 + 2 / 10)))"
  by (simp add: calculate_bullishness_def round2_def round_half_even_def Let_def)

text \<open>
  When both percentages round to zero the division is \<^verbatim>\<open>0.0 / 0.0\<close> and the scorer
  returns no finite number.
\<close>

lemma calculate_bullishness_all_neutral:
  "calculate_bullishness (\<lambda>text. Inr (1 / 100000, 99998 / 100000, 1 / 100000)) (pystr ''gm'')
     = Inr None"
  by (simp add: calculate_bullishness_def round2_def round_half_even_def Let_def)

text \<open>
  C7, amended. For every post and every three-class probability distribution of the
  classifier, when the two percentages \<open>round(100 * bullish, 2)\<close> and
  \<open>round(100 * bearish, 2)\<close> are not both zero, the scorer returns the ratio of the first
  to their sum, rounded to two decimal places; the value lies in \<open>[0, 1]\<close> and is at most
  \<open>1/200\<close> away from that ratio; the neutral probability does not enter: any other
  value in its place gives the same result.
\<close>

theorem sentiment_scorer:
  assumes "model text = Inr (p0, p1, p2)" and "0 \<le> p0" and "0 \<le> p1" and "0 \<le> p2"
    and "p0 + p1 + p2 = 1"
    and "round2 (p0 * 100) + round2 (p2 * 100) \<noteq> 0"
  shows "\<exists>v. calculate_bullishness model text = Inr (Some v) \<and>
      v = round2 (round2 (p0 * 100) / (round2 (p0 * 100) + round2 (p2 * 100))) \<and>
      0 \<le> v \<and> v \<le> 1 \<and>
      \<bar>v - round2 (p0 * 100) / (round2 (p0 * 100) + round2 (p2 * 100))\<bar> \<le> 1 / 200 \<and>
      (\<forall>q. calculate_bullishness (\<lambda>t. Inr (p0, q, p2)) text = Inr (Some v))"
proof -
  define b where "b = round2 (p0 * 100)"
  define r where "r = round2 (p2 * 100)"
  have b: "0 \<le> b" unfolding b_def using assms(2) by (intro round2_nonneg) simp
  have r: "0 \<le> r" unfolding r_def using assms(4) by (intro round2_nonneg) simp
  from assms(6) have nz: "b + r \<noteq> 0" by (simp add: b_def r_def)
  with b r have pos: "0 < b + r" by linarith
  have q0: "0 \<le> b / (b + r)" using b pos by simp
  have q1: "b / (b + r) \<le> 1" using r pos by (simp add: divide_le_eq)
  have val: "calculate_bullishness model text = Inr (Some (round2 (b / (b + r))))"
    using assms(1) nz by (simp add: calculate_bullishness_def Let_def b_def r_def)
  have neutral: "calculate_bullishness (\<lambda>t. Inr (p0, q, p2)) text
      = Inr (Some (round2 (b / (b + r))))" for q
    using nz by (simp add: calculate_bullishness_def Let_def b_def r_def)
  show ?thesis
    using val neutral round2_nonneg [OF q0] round2_le_one [OF q1] round2_near [of "b / (b + r)"]
    by (simp add: b_def r_def)
qed

theorem sentiment_scorer_witness:
  "(9 / 10 + 0 + 1 / 10 = (1::real)) \<and> round2 (9 / 10 * 100) + round2 (1 / 10 * 100) \<noteq> 0 \<and>
   calculate_bullishness (\<lambda>text. Inr (9 / 10, 0, 1 / 10)) (pystr ''XYZ up'')
     = Inr (Some (9 / 10)) \<and>
   calculate_bullishness (\<lambda>text. Inr (9 / 10, 1 / 2, 1 / 10)) (pystr ''XYZ up'')
     = Inr (Some (9 / 10))"
proof -
  have h: "(\<lambda>text::str. Inr (9 / 10 :: real, 0 :: real, 1 / 10 :: real) :: exn + real \<times> real \<times> real)
      (pystr ''XYZ up'') = Inr (9 / 10, 0, 1 / 10)"
    "(0::real) \<le> 9 / 10" "(0::real) \<le> 0" "(0::real) \<le> 1 / 10" "9 / 10 + 0 + 1 / 10 = (1::real)"
    by simp_all
  have nz: "round2 (9 / 10 * 100) + round2 (1 / 10 * 100) \<noteq> 0"
    by (simp add: round2_def round_half_even_def)
  have v: "round2 (round2 (9 / 10 * 100) / (round2 (9 / 10 * 100) + round2 (1 / 10 * 100))) = 9 / 10"
    by (simp add: round2_def round_half_even_def)
  from sentiment_scorer [OF h nz] v h(5) nz
  show ?thesis by auto
qed

subsection \<open>The search term\<close>

text \<open>
  C10. The two code paths derive different search terms exactly for the cashtags of
  length 7: for \<^verbatim>\<open>$ABCDEF\<close> one searches \<^verbatim>\<open>ABCDEF\<close>, the other \<^verbatim>\<open>$ABCDEF\<close>.
\<close>

theorem search_terms_disagree:
  "(search_term_analysis cashtag \<noteq> search_term_sentiment cashtag \<longleftrightarrow> length cashtag = 7) \<and>
   length (pystr ''$ABCDEF'') = 7 \<and>
   search_term_analysis (pystr ''$ABCDEF'') = pystr ''ABCDEF'' \<and>
   search_term_sentiment (pystr ''$ABCDEF'') = pystr ''$ABCDEF''"
proof -
  have "length cashtag = 7 \<Longrightarrow> length (drop 1 cashtag) \<noteq> length cashtag" by simp
  then have "length cashtag = 7 \<Longrightarrow> drop 1 cashtag \<noteq> cashtag" by metis
  then show ?thesis
    by (auto simp: search_term_analysis_def search_term_sentiment_def pystr_def)
qed

subsection \<open>Scoring many tokens\<close>


















end
